theory Spec2Isabelle
  imports Complex_Main
begin

section \<open>Floating-point values\<close>

text \<open>
  The correlation values are Python/NumPy floats. A float is modelled as a real number or
  one of the three special values of IEEE 754, so that "the result is finite" is a
  statement that can fail: dividing by zero gives an infinity or NaN here, as
  \<^verbatim>\<open>numpy.float64\<close> does. Rounding (and with it overflow of finite results) and the sign
  of zero are not modelled: arithmetic on finite values is exact.
\<close>

datatype fl = Fin real | PInf | NInf | NaN

fun is_finite :: "fl \<Rightarrow> bool" where
  "is_finite (Fin x) = True"
| "is_finite PInf = False"
| "is_finite NInf = False"
| "is_finite NaN = False"

text \<open>\<^verbatim>\<open>np.abs(r)\<close>\<close>

fun fabs :: "fl \<Rightarrow> fl" where
  "fabs (Fin x) = Fin \<bar>x\<bar>"
| "fabs PInf = PInf"
| "fabs NInf = PInf"
| "fabs NaN = NaN"

text \<open>\<^verbatim>\<open>a > b\<close>: every comparison with NaN is false.\<close>

fun fgt :: "fl \<Rightarrow> fl \<Rightarrow> bool" where
  "fgt (Fin x) (Fin y) = (x > y)"
| "fgt PInf (Fin y) = True"
| "fgt PInf NInf = True"
| "fgt (Fin x) NInf = True"
| "fgt a b = False"

text \<open>Truth value of a float in \<^verbatim>\<open>if denom :\<close>: false exactly for zero; NaN and the
  infinities are true.\<close>

fun truthy :: "fl \<Rightarrow> bool" where
  "truthy (Fin x) = (x \<noteq> 0)"
| "truthy a = True"

text \<open>An infinity with the sign of \<open>x\<close> (NaN for \<open>x = 0\<close>): the value of \<open>x * inf\<close> and of
  \<open>x / 0\<close>.\<close>

definition signed_inf :: "real \<Rightarrow> fl" where
  "signed_inf x = (if x = 0 then NaN else if x > 0 then PInf else NInf)"

fun fsub :: "fl \<Rightarrow> fl \<Rightarrow> fl" where
  "fsub (Fin x) (Fin y) = Fin (x - y)"
| "fsub NaN b = NaN"
| "fsub a NaN = NaN"
| "fsub PInf PInf = NaN"
| "fsub NInf NInf = NaN"
| "fsub PInf b = PInf"
| "fsub NInf b = NInf"
| "fsub (Fin x) PInf = NInf"
| "fsub (Fin x) NInf = PInf"

fun fmul :: "fl \<Rightarrow> fl \<Rightarrow> fl" where
  "fmul (Fin x) (Fin y) = Fin (x * y)"
| "fmul NaN b = NaN"
| "fmul a NaN = NaN"
| "fmul (Fin x) PInf = signed_inf x"
| "fmul (Fin x) NInf = signed_inf (- x)"
| "fmul PInf (Fin y) = signed_inf y"
| "fmul NInf (Fin y) = signed_inf (- y)"
| "fmul PInf PInf = PInf"
| "fmul NInf NInf = PInf"
| "fmul PInf NInf = NInf"
| "fmul NInf PInf = NInf"

text \<open>\<^verbatim>\<open>a / b\<close> on \<^verbatim>\<open>numpy.float64\<close>: a zero divisor does not raise, it gives an infinity
  (NaN for \<open>0 / 0\<close>). The zero divisor is taken as \<open>+0.0\<close>.\<close>

fun fdiv :: "fl \<Rightarrow> fl \<Rightarrow> fl" where
  "fdiv (Fin x) (Fin y) = (if y = 0 then signed_inf x else Fin (x / y))"
| "fdiv NaN b = NaN"
| "fdiv a NaN = NaN"
| "fdiv (Fin x) PInf = Fin 0"
| "fdiv (Fin x) NInf = Fin 0"
| "fdiv PInf (Fin y) = (if y \<ge> 0 then PInf else NInf)"
| "fdiv NInf (Fin y) = (if y \<ge> 0 then NInf else PInf)"
| "fdiv a b = NaN"

text \<open>\<^verbatim>\<open>x**2\<close>\<close>

definition fsq :: "fl \<Rightarrow> fl" where
  "fsq x = fmul x x"


section \<open>Printed output and exceptions\<close>

text \<open>
  The function prints while it computes and can leave through an exception. A computation
  is modelled by what it has printed and how it ended: \<open>Inl\<close> an exception, \<open>Inr\<close> its value.
  Number formatting is not modelled: an event carries the values that are formatted into
  the line.
\<close>

datatype error =
    SystemExit int       \<comment> \<open>\<^verbatim>\<open>sys.exit(-1)\<close>\<close>
  | IndexError           \<comment> \<open>list or array index out of range\<close>
  | ValueError           \<comment> \<open>unpacking a row that does not hold exactly three values\<close>
  | UnboundLocalError    \<comment> \<open>a loop variable read after a loop that never ran\<close>

datatype event =
    Print_range_error string fl    \<comment> \<open>\<^verbatim>\<open>** ERROR: corr value s = r is outside allowed range [0.0, 1.0]\<close>\<close>
  | Print_text string
  | Print_R "fl list list"
  | Print_M "int list list"
  | Print_indices int int int      \<comment> \<open>\<^verbatim>\<open>++ indices : ii jj kk\<close>\<close>
  | Print_denom fl                 \<comment> \<open>\<^verbatim>\<open>++ denom : denom\<close>\<close>
  | Print_edge string fl           \<comment> \<open>\<^verbatim>\<open>   label  : value\<close>, the value with 2 decimals\<close>

type_synonym 'a io = "event list \<times> (error + 'a)"

definition io_return :: "'a \<Rightarrow> 'a io" where
  "io_return a = ([], Inr a)"

definition io_raise :: "error \<Rightarrow> 'a io" where
  "io_raise e = ([], Inl e)"

definition io_print :: "event \<Rightarrow> unit io" where
  "io_print ev = ([ev], Inr ())"

fun io_bind :: "'a io \<Rightarrow> ('a \<Rightarrow> 'b io) \<Rightarrow> 'b io" where
  "io_bind (out, Inl e) f = (out, Inl e)"
| "io_bind (out, Inr a) f = (case f a of (out', r) \<Rightarrow> (out @ out', r))"

text \<open>\<^verbatim>\<open>if verb : print(...)\<close>\<close>

definition io_when :: "bool \<Rightarrow> unit io \<Rightarrow> unit io" where
  "io_when c m = (if c then m else io_return ())"

text \<open>\<^verbatim>\<open>for x in xs: body\<close>, the state threaded through the iterations.\<close>

fun for_in :: "int list \<Rightarrow> (int \<Rightarrow> 's \<Rightarrow> 's io) \<Rightarrow> 's \<Rightarrow> 's io" where
  "for_in [] body s = io_return s"
| "for_in (x # xs) body s = io_bind (body x s) (for_in xs body)"

definition py_range :: "int \<Rightarrow> int list" where
  "py_range n = [0..n - 1]"


section \<open>Lists and arrays\<close>

text \<open>An index into a sequence of length \<open>n\<close>: negative indices count from the end, anything
  outside \<open>[-n, n)\<close> raises IndexError (Python lists and NumPy arrays alike).\<close>

definition py_index :: "nat \<Rightarrow> int \<Rightarrow> nat option" where
  "py_index n i =
     (if 0 \<le> i \<and> i < int n then Some (nat i)
      else if - int n \<le> i \<and> i < 0 then Some (nat (i + int n))
      else None)"

definition getitem :: "'a list \<Rightarrow> int \<Rightarrow> 'a io" where
  "getitem xs i = (case py_index (length xs) i of
                     None \<Rightarrow> io_raise IndexError
                   | Some n \<Rightarrow> io_return (xs ! n))"

definition setitem :: "'a list \<Rightarrow> int \<Rightarrow> 'a \<Rightarrow> 'a list io" where
  "setitem xs i v = (case py_index (length xs) i of
                       None \<Rightarrow> io_raise IndexError
                     | Some n \<Rightarrow> io_return (xs[n := v]))"

text \<open>\<^verbatim>\<open>A[i,j]\<close> and \<^verbatim>\<open>A[i,j] = v\<close> (for the nested list \<open>S\<close>: \<^verbatim>\<open>S[i][j]\<close>).\<close>

definition get2 :: "'a list list \<Rightarrow> int \<Rightarrow> int \<Rightarrow> 'a io" where
  "get2 A i j = io_bind (getitem A i) (\<lambda>row. getitem row j)"

definition set2 :: "'a list list \<Rightarrow> int \<Rightarrow> int \<Rightarrow> 'a \<Rightarrow> 'a list list io" where
  "set2 A i j v =
     io_bind (getitem A i) (\<lambda>row.
     io_bind (setitem row j v) (\<lambda>row'.
     setitem A i row'))"

text \<open>\<^verbatim>\<open>A[p,i,j]\<close> and \<^verbatim>\<open>A[p,i,j] = v\<close>\<close>

definition get3 :: "'a list list list \<Rightarrow> int \<Rightarrow> int \<Rightarrow> int \<Rightarrow> 'a io" where
  "get3 A p i j = io_bind (getitem A p) (\<lambda>plane. get2 plane i j)"

definition set3 :: "'a list list list \<Rightarrow> int \<Rightarrow> int \<Rightarrow> int \<Rightarrow> 'a \<Rightarrow> 'a list list list io" where
  "set3 A p i j v =
     io_bind (getitem A p) (\<lambda>plane.
     io_bind (set2 plane i j v) (\<lambda>plane'.
     setitem A p plane'))"

text \<open>\<^verbatim>\<open>np.zeros((m,n))\<close> and \<^verbatim>\<open>np.zeros((p,m,n))\<close>\<close>

definition zeros2 :: "int \<Rightarrow> int \<Rightarrow> 'a \<Rightarrow> 'a list list" where
  "zeros2 m n z = replicate (nat m) (replicate (nat n) z)"

definition zeros3 :: "int \<Rightarrow> int \<Rightarrow> int \<Rightarrow> 'a \<Rightarrow> 'a list list list" where
  "zeros3 p m n z = replicate (nat p) (zeros2 m n z)"


section \<open>Formatting an integer\<close>

definition digit_char :: "nat \<Rightarrow> char" where
  "digit_char d = ''0123456789'' ! d"

fun digits :: "nat \<Rightarrow> string" where
  "digits n = (if n < 10 then [digit_char n] else digits (n div 10) @ [digit_char (n mod 10)])"

declare digits.simps [simp del]

text \<open>\<^verbatim>\<open>"{}".format(i)\<close> for an integer\<close>

definition str_int :: "int \<Rightarrow> string" where
  "str_int i = (if i < 0 then ''-'' @ digits (nat (- i)) else digits (nat i))"


section \<open>The estimator \<^verbatim>\<open>calc_acyclic_causal_rel_3x3\<close>\<close>

text \<open>\<^verbatim>\<open>N = 3\<close>, \<^verbatim>\<open>P = 2*N\<close>\<close>

definition N :: int where
  "N = 3"

definition P :: int where
  "P = 2 * N"

text \<open>
  The range check. The source walks \<^verbatim>\<open>all_r\<close> and \<^verbatim>\<open>all_s\<close> by a common index; here
  the two lists are zipped. The first value with \<^verbatim>\<open>np.abs(r) > 1.0\<close> is reported and the
  process exits.
\<close>

definition out_of_range :: "fl \<Rightarrow> bool" where
  "out_of_range r = fgt (fabs r) (Fin 1)"

fun check_range :: "(string \<times> fl) list \<Rightarrow> unit io" where
  "check_range [] = io_return ()"
| "check_range ((s, r) # rest) =
     (if out_of_range r
      then io_bind (io_print (Print_range_error s r)) (\<lambda>_. io_raise (SystemExit (- 1)))
      else check_range rest)"

text \<open>
  \<^verbatim>\<open>R = np.zeros((N,N)); R[0,1] = R[1,0] = r12; R[1,2] = R[2,1] = r23; R[0,2] = R[2,0] = r13\<close>
\<close>

definition assemble_R :: "fl \<Rightarrow> fl \<Rightarrow> fl \<Rightarrow> fl list list io" where
  "assemble_R r13 r23 r12 =
     io_bind (set2 (zeros2 N N (Fin 0)) 0 1 r12) (\<lambda>R.
     io_bind (set2 R 1 0 r12) (\<lambda>R.
     io_bind (set2 R 1 2 r23) (\<lambda>R.
     io_bind (set2 R 2 1 r23) (\<lambda>R.
     io_bind (set2 R 0 2 r13) (\<lambda>R.
     set2 R 2 0 r13)))))"

text \<open>
  The body of the first double loop:
  \<^verbatim>\<open>M1[ii,jj] += (jj + ii*2) % N; M2[jj,ii] += (jj + ii*2) % N;\<close>
  \<^verbatim>\<open>S[ii][jj] = "roi_{} -> roi_{}".format(ii+1,jj+1)\<close>
\<close>

definition tables_step ::
  "int \<Rightarrow> int \<Rightarrow> int list list \<times> int list list \<times> string list list
     \<Rightarrow> (int list list \<times> int list list \<times> string list list) io" where
  "tables_step ii jj = (\<lambda>(M1, M2, S).
     io_bind (get2 M1 ii jj) (\<lambda>m1.
     io_bind (set2 M1 ii jj (m1 + (jj + ii * 2) mod N)) (\<lambda>M1.
     io_bind (get2 M2 jj ii) (\<lambda>m2.
     io_bind (set2 M2 jj ii (m2 + (jj + ii * 2) mod N)) (\<lambda>M2.
     io_bind (set2 S ii jj (''roi_'' @ str_int (ii + 1) @ '' -> roi_'' @ str_int (jj + 1))) (\<lambda>S.
     io_return (M1, M2, S)))))))"

definition make_tables :: "(int list list \<times> int list list \<times> string list list) io" where
  "make_tables =
     for_in (py_range N) (\<lambda>ii. for_in (py_range N) (\<lambda>jj. tables_step ii jj))
       (zeros2 N N 0, zeros2 N N 0, [[[], [], []], [[], [], []], [[], [], []]])"

text \<open>
  The body of the second double loop:
  \<^verbatim>\<open>aa = (M1[ii,0]+M1[ii,2]-1)*(N-1); bb = (M2[ii,0]+M2[ii,2]-1)*(N-1)+1;\<close>
  \<^verbatim>\<open>M[aa,jj] = M1[ii,jj]; M[bb,jj] = M2[ii,jj]\<close>
\<close>

definition fill_step :: "int list list \<Rightarrow> int list list \<Rightarrow> int \<Rightarrow> int \<Rightarrow> int list list \<Rightarrow> int list list io" where
  "fill_step M1 M2 ii jj M =
     io_bind (get2 M1 ii 0) (\<lambda>a0.
     io_bind (get2 M1 ii 2) (\<lambda>a2.
     let aa = (a0 + a2 - 1) * (N - 1) in
     io_bind (get2 M2 ii 0) (\<lambda>b0.
     io_bind (get2 M2 ii 2) (\<lambda>b2.
     let bb = (b0 + b2 - 1) * (N - 1) + 1 in
     io_bind (get2 M1 ii jj) (\<lambda>v.
     io_bind (set2 M aa jj v) (\<lambda>M.
     io_bind (get2 M2 ii jj) (\<lambda>w.
     set2 M bb jj w)))))))"

definition make_M :: "int list list \<Rightarrow> int list list \<Rightarrow> int list list io" where
  "make_M M1 M2 =
     for_in (py_range N) (\<lambda>ii. for_in (py_range N) (\<lambda>jj. fill_step M1 M2 ii jj))
       (zeros2 P N 0)"

text \<open>
  One iteration of the loop over the permutations. The state is the array \<open>C\<close> and the
  loop variables \<open>(pp, ii, jj, kk)\<close> as the latest iteration left them (\<open>None\<close> before the
  first), which the return statement reads after the loop.
\<close>

type_synonym loop_vars = "int \<times> int \<times> int \<times> int"

text \<open>\<^verbatim>\<open>ii,jj,kk = M[pp,:]\<close>\<close>

definition unpack_row :: "int list list \<Rightarrow> int \<Rightarrow> (int \<times> int \<times> int) io" where
  "unpack_row M pp =
     io_bind (getitem M pp) (\<lambda>row.
       case row of [ii, jj, kk] \<Rightarrow> io_return (ii, jj, kk) | _ \<Rightarrow> io_raise ValueError)"

text \<open>The three report lines of one permutation, after an empty line.\<close>

definition print_edges ::
  "string list list \<Rightarrow> fl list list list \<Rightarrow> int \<Rightarrow> int \<Rightarrow> int \<Rightarrow> int \<Rightarrow> unit io" where
  "print_edges S C pp ii jj kk =
     io_bind (io_print (Print_text [])) (\<lambda>_.
     io_bind (get2 S ii kk) (\<lambda>s1. io_bind (get3 C pp ii kk) (\<lambda>c1.
     io_bind (io_print (Print_edge s1 c1)) (\<lambda>_.
     io_bind (get2 S ii jj) (\<lambda>s2. io_bind (get3 C pp ii jj) (\<lambda>c2.
     io_bind (io_print (Print_edge s2 c2)) (\<lambda>_.
     io_bind (get2 S kk jj) (\<lambda>s3. io_bind (get3 C pp kk jj) (\<lambda>c3.
     io_print (Print_edge s3 c3))))))))))"

definition perm_step ::
  "fl list list \<Rightarrow> int list list \<Rightarrow> string list list \<Rightarrow> bool \<Rightarrow> int
     \<Rightarrow> fl list list list \<times> loop_vars option \<Rightarrow> (fl list list list \<times> loop_vars option) io" where
  "perm_step R M S verb pp = (\<lambda>(C, _).
     io_bind (unpack_row M pp) (\<lambda>(ii, jj, kk).
     io_bind (io_when verb (io_print (Print_indices ii jj kk))) (\<lambda>_.
     io_bind (get2 R ii kk) (\<lambda>r_ik.
     io_bind (set3 C pp ii kk r_ik) (\<lambda>C.
     io_bind (get2 R ii kk) (\<lambda>r_ik.
     let denom = fsub (Fin 1) (fsq r_ik) in
     io_bind (io_when verb (io_print (Print_denom denom))) (\<lambda>_.
     io_bind
       (if truthy denom then
          io_bind (get2 R ii jj) (\<lambda>r_ij.
          io_bind (get2 R ii kk) (\<lambda>r_ik.
          io_bind (get2 R kk jj) (\<lambda>r_kj.
          io_bind (set3 C pp ii jj (fdiv (fsub r_ij (fmul r_ik r_kj)) denom)) (\<lambda>C.
          io_bind (get2 R kk jj) (\<lambda>r_kj.
          io_bind (get2 R ii kk) (\<lambda>r_ik.
          io_bind (get2 R ii jj) (\<lambda>r_ij.
          set3 C pp kk jj (fdiv (fsub r_kj (fmul r_ik r_ij)) denom))))))))
        else
          io_bind (set3 C pp ii jj (Fin 0)) (\<lambda>C.
          set3 C pp kk jj (Fin 0))) (\<lambda>C.
     io_bind (print_edges S C pp ii jj kk) (\<lambda>_.
     io_return (C, Some (pp, ii, jj, kk)))))))))))"

text \<open>Everything up to the return statement: the local variables after the last loop.\<close>

definition calc_locals ::
  "fl \<Rightarrow> fl \<Rightarrow> fl \<Rightarrow> int
     \<Rightarrow> (fl list list \<times> int list list \<times> string list list \<times> fl list list list \<times> loop_vars option) io" where
  "calc_locals r13 r23 r12 verb =
     io_bind (check_range (zip [''r13'', ''r23'', ''r12''] [r13, r23, r12])) (\<lambda>_.
     io_bind (assemble_R r13 r23 r12) (\<lambda>R.
     io_bind (io_when (verb \<noteq> 0)
                (io_bind (io_print (Print_text ''++ R:'')) (\<lambda>_. io_print (Print_R R)))) (\<lambda>_.
     io_bind make_tables (\<lambda>(M1, M2, S).
     io_bind (make_M M1 M2) (\<lambda>M.
     io_bind (io_when (verb \<noteq> 0)
                (io_bind (io_print (Print_text ''++ M:'')) (\<lambda>_. io_print (Print_M M)))) (\<lambda>_.
     io_bind (for_in (py_range P) (perm_step R M S (verb \<noteq> 0)) (zeros3 P N N (Fin 0), None))
       (\<lambda>(C, vars).
     io_return (R, M, S, C, vars))))))))"

text \<open>
  \<^verbatim>\<open>L_str_val = [S[ii][kk], S[ii][jj], S[kk][jj], C[pp,ii,kk], C[pp,ii,jj], C[pp,kk,jj]]\<close>
\<close>

datatype pyval = Str string | Flt fl

definition return_list ::
  "string list list \<Rightarrow> fl list list list \<Rightarrow> loop_vars option \<Rightarrow> pyval list io" where
  "return_list S C vars =
     (case vars of
        None \<Rightarrow> io_raise UnboundLocalError
      | Some (pp, ii, jj, kk) \<Rightarrow>
          io_bind (get2 S ii kk) (\<lambda>s1.
          io_bind (get2 S ii jj) (\<lambda>s2.
          io_bind (get2 S kk jj) (\<lambda>s3.
          io_bind (get3 C pp ii kk) (\<lambda>c1.
          io_bind (get3 C pp ii jj) (\<lambda>c2.
          io_bind (get3 C pp kk jj) (\<lambda>c3.
          io_return [Str s1, Str s2, Str s3, Flt c1, Flt c2, Flt c3])))))))"

definition calc_acyclic_causal_rel_3x3 :: "fl \<Rightarrow> fl \<Rightarrow> fl \<Rightarrow> int \<Rightarrow> pyval list io" where
  "calc_acyclic_causal_rel_3x3 r13 r23 r12 verb =
     io_bind (calc_locals r13 r23 r12 verb) (\<lambda>(R, M, S, C, vars). return_list S C vars)"


text \<open>
  Two observations of the index tables, for the statements about them: the table \<open>M\<close> as
  the two double loops leave it, and row \<open>b\<close> of \<open>M1\<close> after the first double loop with
  its third entry (the \<open>kk\<close> of a permutation that is read from this row).
\<close>

definition perm_table :: "int list list io" where
  "perm_table = io_bind make_tables (\<lambda>(M1, M2, S). make_M M1 M2)"

definition forward_row :: "int \<Rightarrow> int list io" where
  "forward_row b = io_bind make_tables (\<lambda>(M1, M2, S). getitem M1 b)"

definition forward_bridge :: "int \<Rightarrow> int io" where
  "forward_bridge b = io_bind (forward_row b) (\<lambda>row. getitem row 2)"


section \<open>Closed forms of what the loops compute\<close>

text \<open>
  The value the permutation loop stores for a derived edge, as a function of the three
  entries of \<open>R\<close> it reads: \<open>(x - b*y) / denom\<close> with \<open>denom = 1 - b**2\<close> when \<open>denom\<close> is
  true, and \<open>0.0\<close> otherwise. It abbreviates the two branches of \<open>perm_step\<close> and is used
  in the lemmas that run the loops; the theorems on the claims are stated on the
  arithmetic itself.
\<close>

definition deconf :: "fl \<Rightarrow> fl \<Rightarrow> fl \<Rightarrow> fl" where
  "deconf x b y =
     (if truthy (fsub (Fin 1) (fsq b)) then fdiv (fsub x (fmul b y)) (fsub (Fin 1) (fsq b))
      else Fin 0)"

abbreviation M_tab :: "int list list" where
  "M_tab \<equiv> [[1, 2, 0], [0, 2, 1], [0, 1, 2], [2, 1, 0], [2, 0, 1], [1, 0, 2]]"

abbreviation S_tab :: "string list list" where
  "S_tab \<equiv> [[''roi_1 -> roi_1'', ''roi_1 -> roi_2'', ''roi_1 -> roi_3''],
            [''roi_2 -> roi_1'', ''roi_2 -> roi_2'', ''roi_2 -> roi_3''],
            [''roi_3 -> roi_1'', ''roi_3 -> roi_2'', ''roi_3 -> roi_3'']]"

abbreviation Z3 :: "fl list list" where
  "Z3 \<equiv> [[Fin 0, Fin 0, Fin 0], [Fin 0, Fin 0, Fin 0], [Fin 0, Fin 0, Fin 0]]"

text \<open>The array \<open>C\<close> after the six iterations, one 3 x 3 plane for each permutation.\<close>

definition C_closed :: "fl \<Rightarrow> fl \<Rightarrow> fl \<Rightarrow> fl list list list" where
  "C_closed r13 r23 r12 =
     [[[Fin 0, Fin 0, deconf r13 r12 r23], [r12, Fin 0, deconf r23 r12 r13], [Fin 0, Fin 0, Fin 0]],
      [[Fin 0, r12, deconf r13 r12 r23], [Fin 0, Fin 0, deconf r23 r12 r13], [Fin 0, Fin 0, Fin 0]],
      [[Fin 0, deconf r12 r13 r23, r13], [Fin 0, Fin 0, Fin 0], [Fin 0, deconf r23 r13 r12, Fin 0]],
      [[Fin 0, deconf r12 r13 r23, Fin 0], [Fin 0, Fin 0, Fin 0], [r13, deconf r23 r13 r12, Fin 0]],
      [[Fin 0, Fin 0, Fin 0], [deconf r12 r23 r13, Fin 0, Fin 0], [deconf r13 r23 r12, r23, Fin 0]],
      [[Fin 0, Fin 0, Fin 0], [deconf r12 r23 r13, Fin 0, r23], [deconf r13 r23 r12, Fin 0, Fin 0]]]"


section \<open>Running the loops\<close>

lemma list_update_Cons_numeral [simp]:
  "(x # xs)[numeral k := v] = x # xs[pred_numeral k := v]"
  by (simp add: numeral_eq_Suc)

lemma replicate_numeral [simp]:
  "replicate (numeral k) x = x # replicate (pred_numeral k) x"
  by (simp add: numeral_eq_Suc)

lemmas io_defs = io_return_def io_raise_def io_print_def io_when_def getitem_def setitem_def
  get2_def set2_def get3_def set3_def py_index_def zeros2_def zeros3_def N_def P_def py_range_def

text \<open>The outcome of a sequence is the outcome of its second part, once the first part
  has returned.\<close>

lemma snd_io_bind: "snd m = Inr a \<Longrightarrow> snd (io_bind m f) = snd (f a)"
  by (cases m; cases "f a"; simp)

lemma snd_eq: "m = (out, r) \<Longrightarrow> snd m = r"
  by simp

lemma snd_print2: "snd (io_when c (io_bind (io_print a) (\<lambda>_. io_print b))) = Inr ()"
  by (simp add: io_when_def io_print_def io_return_def)

text \<open>The index tables and the labels do not depend on the input.\<close>

lemma make_tables_val:
  "make_tables =
     ([], Inr ([[0, 1, 2], [2, 0, 1], [1, 2, 0]], [[0, 2, 1], [1, 0, 2], [2, 1, 0]], S_tab))"
  by code_simp

lemma make_M_val:
  "make_M [[0, 1, 2], [2, 0, 1], [1, 2, 0]] [[0, 2, 1], [1, 0, 2], [2, 1, 0]] = ([], Inr M_tab)"
  by code_simp

lemma assemble_R_val:
  "assemble_R r13 r23 r12 = ([], Inr [[Fin 0, r12, r13], [r12, Fin 0, r23], [r13, r23, Fin 0]])"
  by (simp add: assemble_R_def io_defs)

text \<open>Each iteration fills its own plane of \<open>C\<close> and leaves the others as they are.\<close>

lemma perm_step_0:
  "snd (perm_step [[Fin 0, r12, r13], [r12, Fin 0, r23], [r13, r23, Fin 0]] M_tab S_tab verb 0
     ([Z3, p1, p2, p3, p4, p5], v))
   = Inr ([[[Fin 0, Fin 0, deconf r13 r12 r23], [r12, Fin 0, deconf r23 r12 r13], [Fin 0, Fin 0, Fin 0]], p1, p2, p3, p4, p5],
          Some (0, 1, 2, 0))"
  by (simp add: perm_step_def unpack_row_def print_edges_def deconf_def Let_def io_defs)

lemma perm_step_1:
  "snd (perm_step [[Fin 0, r12, r13], [r12, Fin 0, r23], [r13, r23, Fin 0]] M_tab S_tab verb 1
     ([c0, Z3, p2, p3, p4, p5], v))
   = Inr ([c0, [[Fin 0, r12, deconf r13 r12 r23], [Fin 0, Fin 0, deconf r23 r12 r13], [Fin 0, Fin 0, Fin 0]], p2, p3, p4, p5],
          Some (1, 0, 2, 1))"
  by (simp add: perm_step_def unpack_row_def print_edges_def deconf_def Let_def io_defs)

lemma perm_step_2:
  "snd (perm_step [[Fin 0, r12, r13], [r12, Fin 0, r23], [r13, r23, Fin 0]] M_tab S_tab verb 2
     ([c0, c1, Z3, p3, p4, p5], v))
   = Inr ([c0, c1, [[Fin 0, deconf r12 r13 r23, r13], [Fin 0, Fin 0, Fin 0], [Fin 0, deconf r23 r13 r12, Fin 0]], p3, p4, p5],
          Some (2, 0, 1, 2))"
  by (simp add: perm_step_def unpack_row_def print_edges_def deconf_def Let_def io_defs)

lemma perm_step_3:
  "snd (perm_step [[Fin 0, r12, r13], [r12, Fin 0, r23], [r13, r23, Fin 0]] M_tab S_tab verb 3
     ([c0, c1, c2, Z3, p4, p5], v))
   = Inr ([c0, c1, c2, [[Fin 0, deconf r12 r13 r23, Fin 0], [Fin 0, Fin 0, Fin 0], [r13, deconf r23 r13 r12, Fin 0]], p4, p5],
          Some (3, 2, 1, 0))"
  by (simp add: perm_step_def unpack_row_def print_edges_def deconf_def Let_def io_defs)

lemma perm_step_4:
  "snd (perm_step [[Fin 0, r12, r13], [r12, Fin 0, r23], [r13, r23, Fin 0]] M_tab S_tab verb 4
     ([c0, c1, c2, c3, Z3, p5], v))
   = Inr ([c0, c1, c2, c3, [[Fin 0, Fin 0, Fin 0], [deconf r12 r23 r13, Fin 0, Fin 0], [deconf r13 r23 r12, r23, Fin 0]], p5],
          Some (4, 2, 0, 1))"
  by (simp add: perm_step_def unpack_row_def print_edges_def deconf_def Let_def io_defs)

lemma perm_step_5:
  "snd (perm_step [[Fin 0, r12, r13], [r12, Fin 0, r23], [r13, r23, Fin 0]] M_tab S_tab verb 5
     ([c0, c1, c2, c3, c4, Z3], v))
   = Inr ([c0, c1, c2, c3, c4, [[Fin 0, Fin 0, Fin 0], [deconf r12 r23 r13, Fin 0, r23], [deconf r13 r23 r12, Fin 0, Fin 0]]],
          Some (5, 1, 0, 2))"
  by (simp add: perm_step_def unpack_row_def print_edges_def deconf_def Let_def io_defs)

lemma range_P: "py_range P = [0, 1, 2, 3, 4, 5]"
  by code_simp

lemma zeros_C: "zeros3 P N N (Fin 0) = [Z3, Z3, Z3, Z3, Z3, Z3]"
  by (simp add: io_defs)

lemma perm_loop:
  "snd (for_in (py_range P)
          (perm_step [[Fin 0, r12, r13], [r12, Fin 0, r23], [r13, r23, Fin 0]] M_tab S_tab verb)
          (zeros3 P N N (Fin 0), None))
   = Inr (C_closed r13 r23 r12, Some (5, 1, 0, 2))"
  unfolding range_P zeros_C for_in.simps
  by (simp only: snd_io_bind [OF perm_step_0] snd_io_bind [OF perm_step_1]
        snd_io_bind [OF perm_step_2] snd_io_bind [OF perm_step_3]
        snd_io_bind [OF perm_step_4] snd_io_bind [OF perm_step_5]
        C_closed_def io_return_def snd_conv)

lemma check_range_pass:
  "\<not> out_of_range r13 \<Longrightarrow> \<not> out_of_range r23 \<Longrightarrow> \<not> out_of_range r12 \<Longrightarrow>
   snd (check_range (zip [''r13'', ''r23'', ''r12''] [r13, r23, r12])) = Inr ()"
  by (simp add: io_return_def)

lemma check_range_fail:
  "out_of_range r13 \<or> out_of_range r23 \<or> out_of_range r12 \<Longrightarrow>
   check_range (zip [''r13'', ''r23'', ''r12''] [r13, r23, r12])
   = (if out_of_range r13 then ([Print_range_error ''r13'' r13], Inl (SystemExit (- 1)))
      else if out_of_range r23 then ([Print_range_error ''r23'' r23], Inl (SystemExit (- 1)))
      else ([Print_range_error ''r12'' r12], Inl (SystemExit (- 1))))"
  by (auto simp add: io_print_def io_raise_def)

text \<open>The local variables after the loops, for an input that passes the range check.\<close>

lemma calc_locals_val:
  assumes "\<not> out_of_range r13" "\<not> out_of_range r23" "\<not> out_of_range r12"
  shows "snd (calc_locals r13 r23 r12 verb)
         = Inr ([[Fin 0, r12, r13], [r12, Fin 0, r23], [r13, r23, Fin 0]], M_tab, S_tab,
                C_closed r13 r23 r12, Some (5, 1, 0, 2))"
  unfolding calc_locals_def
  by (simp only: snd_io_bind [OF check_range_pass [OF assms]]
        snd_io_bind [OF snd_eq [OF assemble_R_val]] snd_io_bind [OF snd_print2]
        snd_io_bind [OF snd_eq [OF make_tables_val]] snd_io_bind [OF snd_eq [OF make_M_val]]
        snd_io_bind [OF perm_loop] prod.case io_return_def snd_conv)

lemma calc_locals_fail:
  assumes "out_of_range r13 \<or> out_of_range r23 \<or> out_of_range r12"
  shows "snd (calc_locals r13 r23 r12 verb) = Inl (SystemExit (- 1))"
  unfolding calc_locals_def check_range_fail [OF assms]
  by simp

text \<open>Whenever the loops have run to their end, the local variables are these.\<close>

lemma calc_locals_Inr:
  assumes "snd (calc_locals r13 r23 r12 verb) = Inr (R, M, S, C, vars)"
  shows "R = [[Fin 0, r12, r13], [r12, Fin 0, r23], [r13, r23, Fin 0]]"
    and "M = M_tab" and "S = S_tab" and "C = C_closed r13 r23 r12"
    and "vars = Some (5, 1, 0, 2)"
proof -
  have ok: "\<not> out_of_range r13 \<and> \<not> out_of_range r23 \<and> \<not> out_of_range r12"
  proof (rule ccontr)
    assume "\<not> (\<not> out_of_range r13 \<and> \<not> out_of_range r23 \<and> \<not> out_of_range r12)"
    then have "out_of_range r13 \<or> out_of_range r23 \<or> out_of_range r12" by blast
    from calc_locals_fail [OF this, of verb] assms show False by simp
  qed
  then have "snd (calc_locals r13 r23 r12 verb)
         = Inr ([[Fin 0, r12, r13], [r12, Fin 0, r23], [r13, r23, Fin 0]], M_tab, S_tab,
                C_closed r13 r23 r12, Some (5, 1, 0, 2))"
    by (simp add: calc_locals_val)
  with assms show "R = [[Fin 0, r12, r13], [r12, Fin 0, r23], [r13, r23, Fin 0]]"
    and "M = M_tab" and "S = S_tab" and "C = C_closed r13 r23 r12"
    and "vars = Some (5, 1, 0, 2)"
    by simp_all
qed

lemma calc_val:
  assumes "\<not> out_of_range r13" "\<not> out_of_range r23" "\<not> out_of_range r12"
  shows "snd (calc_acyclic_causal_rel_3x3 r13 r23 r12 verb)
         = Inr [Str ''roi_2 -> roi_3'', Str ''roi_2 -> roi_1'', Str ''roi_3 -> roi_1'',
                Flt r23, Flt (deconf r12 r23 r13), Flt (deconf r13 r23 r12)]"
  unfolding calc_acyclic_causal_rel_3x3_def
  by (simp add: snd_io_bind [OF calc_locals_val [OF assms]] return_list_def C_closed_def io_defs)

lemma calc_fail:
  assumes "out_of_range r13 \<or> out_of_range r23 \<or> out_of_range r12"
  shows "calc_acyclic_causal_rel_3x3 r13 r23 r12 verb
         = (if out_of_range r13 then ([Print_range_error ''r13'' r13], Inl (SystemExit (- 1)))
            else if out_of_range r23 then ([Print_range_error ''r23'' r23], Inl (SystemExit (- 1)))
            else ([Print_range_error ''r12'' r12], Inl (SystemExit (- 1))))"
  unfolding calc_acyclic_causal_rel_3x3_def calc_locals_def check_range_fail [OF assms]
  by simp

text \<open>On finite values the arithmetic is that of the real numbers.\<close>

lemma out_of_range_Fin: "out_of_range (Fin x) = (\<bar>x\<bar> > 1)"
  by (simp add: out_of_range_def)

lemma deconf_Fin:
  "deconf (Fin x) (Fin b) (Fin y) = Fin (if 1 - b * b \<noteq> 0 then (x - b * y) / (1 - b * b) else 0)"
  by (simp add: deconf_def fsq_def)

text \<open>What each plane of \<open>C\<close> holds, in terms of the row of the permutation table.\<close>

lemma lt6_cases: "pp < 6 \<Longrightarrow> pp = 0 \<or> pp = 1 \<or> pp = 2 \<or> pp = 3 \<or> pp = 4 \<or> pp = (5::nat)"
  by arith

lemma perm_entries:
  assumes "pp < 6" and "M_tab ! pp = [i, j, k]"
  shows "C_closed r13 r23 r12 ! pp ! nat i ! nat k
           = [[Fin 0, r12, r13], [r12, Fin 0, r23], [r13, r23, Fin 0]] ! nat i ! nat k"
    and "C_closed r13 r23 r12 ! pp ! nat i ! nat j
           = deconf ([[Fin 0, r12, r13], [r12, Fin 0, r23], [r13, r23, Fin 0]] ! nat i ! nat j)
                    ([[Fin 0, r12, r13], [r12, Fin 0, r23], [r13, r23, Fin 0]] ! nat i ! nat k)
                    ([[Fin 0, r12, r13], [r12, Fin 0, r23], [r13, r23, Fin 0]] ! nat k ! nat j)"
    and "C_closed r13 r23 r12 ! pp ! nat k ! nat j
           = deconf ([[Fin 0, r12, r13], [r12, Fin 0, r23], [r13, r23, Fin 0]] ! nat k ! nat j)
                    ([[Fin 0, r12, r13], [r12, Fin 0, r23], [r13, r23, Fin 0]] ! nat i ! nat k)
                    ([[Fin 0, r12, r13], [r12, Fin 0, r23], [r13, r23, Fin 0]] ! nat i ! nat j)"
  using lt6_cases [OF assms(1)] assms(2) by (auto simp add: C_closed_def)

lemma denom_zero_iff:
  "(\<not> truthy (fsub (Fin 1) (fsq b))) = (b = Fin 1 \<or> b = Fin (- 1))"
proof (cases b)
  case (Fin x)
  have "(1 - x * x = 0) = (x = 1 \<or> x = - 1)"
    using square_eq_1_iff [of x] by auto
  with Fin show ?thesis by (simp add: fsq_def)
qed (simp_all add: fsq_def)

lemma fdiv_zero_not_finite: "\<not> is_finite (fdiv a (Fin 0))"
  by (cases a) (simp_all add: signed_inf_def)

lemma perm_table_val: "perm_table = ([], Inr M_tab)"
  by (simp add: perm_table_def make_tables_val make_M_val)

lemma deconf_finite: "is_finite (deconf (Fin x) (Fin b) (Fin y))"
  by (simp add: deconf_Fin)

lemma lt3_cases: "a < 3 \<Longrightarrow> a = 0 \<or> a = 1 \<or> a = (2::nat)"
  by arith

lemma all_lt3: "(\<forall>a<3. Q a) = (Q 0 \<and> Q 1 \<and> Q (2::nat))"
proof
  assume "\<forall>a<3. Q a" then show "Q 0 \<and> Q 1 \<and> Q 2" by simp
next
  assume h: "Q 0 \<and> Q 1 \<and> Q 2"
  show "\<forall>a<3. Q a"
  proof (intro allI impI)
    fix a :: nat assume "a < 3"
    from lt3_cases [OF this] h show "Q a" by auto
  qed
qed

lemma all_lt6: "(\<forall>a<6. Q a) = (Q 0 \<and> Q 1 \<and> Q 2 \<and> Q 3 \<and> Q 4 \<and> Q (5::nat))"
proof
  assume "\<forall>a<6. Q a" then show "Q 0 \<and> Q 1 \<and> Q 2 \<and> Q 3 \<and> Q 4 \<and> Q 5" by simp
next
  assume h: "Q 0 \<and> Q 1 \<and> Q 2 \<and> Q 3 \<and> Q 4 \<and> Q 5"
  show "\<forall>a<6. Q a"
  proof (intro allI impI)
    fix a :: nat assume "a < 6"
    from lt6_cases [OF this] h show "Q a" by auto
  qed
qed

section \<open>The claims\<close>

text \<open>
  In the theorems below an input "passes the range check" when \<open>out_of_range\<close> is false
  for it; \<open>calc_locals\<close> gives the local variables \<open>R\<close>, \<open>M\<close>, \<open>S\<close>, \<open>C\<close> and the loop
  variables after the last loop, and a permutation is a row \<open>[i, j, k]\<close> of \<open>M\<close>.
\<close>

text \<open>
  C1. The call fails exactly when \<^verbatim>\<open>np.abs\<close> of \<open>r13\<close>, \<open>r23\<close> or \<open>r12\<close> is greater than
  \<open>1.0\<close>; it then prints one line that names the first offending parameter and its value
  and exits with \<^verbatim>\<open>sys.exit(-1)\<close>, nothing else having been printed or computed (also
  when \<open>verb\<close> is set). A finite value is out of range exactly when its absolute value is
  greater than 1, so \<open>1.0\<close> and \<open>-1.0\<close> are accepted. For three values in \<open>[-1, 1]\<close> the call
  returns a list of three labels followed by three finite values.
\<close>

theorem C1_range_check:
  "((\<exists>e. snd (calc_acyclic_causal_rel_3x3 r13 r23 r12 verb) = Inl e)
      = (out_of_range r13 \<or> out_of_range r23 \<or> out_of_range r12))
   \<and> (out_of_range r13 \<or> out_of_range r23 \<or> out_of_range r12 \<longrightarrow>
        calc_acyclic_causal_rel_3x3 r13 r23 r12 verb
        = (if out_of_range r13 then ([Print_range_error ''r13'' r13], Inl (SystemExit (- 1)))
           else if out_of_range r23 then ([Print_range_error ''r23'' r23], Inl (SystemExit (- 1)))
           else ([Print_range_error ''r12'' r12], Inl (SystemExit (- 1)))))
   \<and> out_of_range (Fin x) = (\<bar>x\<bar> > 1)
   \<and> (r13 = Fin x13 \<and> \<bar>x13\<bar> \<le> 1 \<and> r23 = Fin x23 \<and> \<bar>x23\<bar> \<le> 1 \<and> r12 = Fin x12 \<and> \<bar>x12\<bar> \<le> 1 \<longrightarrow>
        (\<exists>l1 l2 l3 v1 v2 v3.
           snd (calc_acyclic_causal_rel_3x3 r13 r23 r12 verb)
             = Inr [Str l1, Str l2, Str l3, Flt v1, Flt v2, Flt v3]
           \<and> is_finite v1 \<and> is_finite v2 \<and> is_finite v3))"
proof (intro conjI impI)
  show "(\<exists>e. snd (calc_acyclic_causal_rel_3x3 r13 r23 r12 verb) = Inl e)
          = (out_of_range r13 \<or> out_of_range r23 \<or> out_of_range r12)"
  proof (cases "out_of_range r13 \<or> out_of_range r23 \<or> out_of_range r12")
    case True
    then show ?thesis by (simp add: calc_fail [OF True])
  next
    case False
    then show ?thesis by (simp add: calc_val)
  qed
next
  assume "out_of_range r13 \<or> out_of_range r23 \<or> out_of_range r12"
  then show "calc_acyclic_causal_rel_3x3 r13 r23 r12 verb
        = (if out_of_range r13 then ([Print_range_error ''r13'' r13], Inl (SystemExit (- 1)))
           else if out_of_range r23 then ([Print_range_error ''r23'' r23], Inl (SystemExit (- 1)))
           else ([Print_range_error ''r12'' r12], Inl (SystemExit (- 1))))"
    by (rule calc_fail)
next
  show "out_of_range (Fin x) = (\<bar>x\<bar> > 1)" by (rule out_of_range_Fin)
next
  assume v: "r13 = Fin x13 \<and> \<bar>x13\<bar> \<le> 1 \<and> r23 = Fin x23 \<and> \<bar>x23\<bar> \<le> 1 \<and> r12 = Fin x12 \<and> \<bar>x12\<bar> \<le> 1"
  then have ok: "\<not> out_of_range r13" "\<not> out_of_range r23" "\<not> out_of_range r12"
    by (simp_all add: out_of_range_Fin)
  have "is_finite r23" "is_finite (deconf r12 r23 r13)" "is_finite (deconf r13 r23 r12)"
    using v by (simp_all add: deconf_finite)
  then show "\<exists>l1 l2 l3 v1 v2 v3.
           snd (calc_acyclic_causal_rel_3x3 r13 r23 r12 verb)
             = Inr [Str l1, Str l2, Str l3, Flt v1, Flt v2, Flt v3]
           \<and> is_finite v1 \<and> is_finite v2 \<and> is_finite v3"
    unfolding calc_val [OF ok] by blast
qed

theorem C1_range_check_witness:
  "calc_acyclic_causal_rel_3x3 (Fin (3/5)) (Fin (- (1/2))) (Fin (3/2)) 1
     = ([Print_range_error ''r12'' (Fin (3/2))], Inl (SystemExit (- 1)))
   \<and> (\<exists>l1 l2 l3 v1 v2 v3.
         snd (calc_acyclic_causal_rel_3x3 (Fin 1) (Fin (- 1)) (Fin (1/2)) 0)
           = Inr [Str l1, Str l2, Str l3, Flt v1, Flt v2, Flt v3]
         \<and> is_finite v1 \<and> is_finite v2 \<and> is_finite v3)"
  using C1_range_check [of "Fin (3/5)" "Fin (- (1/2))" "Fin (3/2)" 1 0 0 0 0]
    C1_range_check [of "Fin 1" "Fin (- 1)" "Fin (1/2)" 0 0 1 "- 1" "1/2"]
  by (simp add: out_of_range_Fin)

text \<open>
  C2. For an input that passes the range check the call returns one list of six entries:
  the three labels and the three values of \<open>C\<close> for the last row of the table \<open>M\<close>, the row
  with index 5 of its 6 rows.
\<close>

theorem C2_returns_last_permutation:
  assumes "\<not> out_of_range r13" and "\<not> out_of_range r23" and "\<not> out_of_range r12"
  shows "\<exists>R M S C vars i j k.
           snd (calc_locals r13 r23 r12 verb) = Inr (R, M, S, C, vars)
         \<and> length M = 6 \<and> M ! 5 = [i, j, k] \<and> last M = [i, j, k]
         \<and> snd (calc_acyclic_causal_rel_3x3 r13 r23 r12 verb)
             = Inr [Str (S ! nat i ! nat k), Str (S ! nat i ! nat j), Str (S ! nat k ! nat j),
                    Flt (C ! 5 ! nat i ! nat k), Flt (C ! 5 ! nat i ! nat j),
                    Flt (C ! 5 ! nat k ! nat j)]"
  unfolding calc_locals_val [OF assms] calc_val [OF assms]
  by (simp add: C_closed_def)

theorem C2_returns_last_permutation_witness:
  "\<exists>R M S C vars i j k.
           snd (calc_locals (Fin (3/5)) (Fin (- (1/2))) (Fin (- (1/20))) 0) = Inr (R, M, S, C, vars)
         \<and> length M = 6 \<and> M ! 5 = [i, j, k] \<and> last M = [i, j, k]
         \<and> snd (calc_acyclic_causal_rel_3x3 (Fin (3/5)) (Fin (- (1/2))) (Fin (- (1/20))) 0)
             = Inr [Str (S ! nat i ! nat k), Str (S ! nat i ! nat j), Str (S ! nat k ! nat j),
                    Flt (C ! 5 ! nat i ! nat k), Flt (C ! 5 ! nat i ! nat j),
                    Flt (C ! 5 ! nat k ! nat j)]"
  by (rule C2_returns_last_permutation) (simp_all add: out_of_range_Fin)

text \<open>
  C3. For every permutation \<open>(i, j, k)\<close> whose denominator \<open>denom = 1 - R[i,k]**2\<close> is
  nonzero (true in \<^verbatim>\<open>if denom\<close>), the two derived edges stored in \<open>C\<close> are
  \<open>C[pp,i,j] = (R[i,j] - R[i,k]*R[k,j]) / denom\<close> and
  \<open>C[pp,k,j] = (R[k,j] - R[i,k]*R[i,j]) / denom\<close>.
\<close>

theorem C3_derived_edges:
  assumes locals: "snd (calc_locals r13 r23 r12 verb) = Inr (R, M, S, C, vars)"
    and pp: "pp < 6" and perm: "M ! pp = [i, j, k]"
    and denom: "truthy (fsub (Fin 1) (fsq (R ! nat i ! nat k)))"
  shows "C ! pp ! nat i ! nat j
           = fdiv (fsub (R ! nat i ! nat j) (fmul (R ! nat i ! nat k) (R ! nat k ! nat j)))
                  (fsub (Fin 1) (fsq (R ! nat i ! nat k)))
       \<and> C ! pp ! nat k ! nat j
           = fdiv (fsub (R ! nat k ! nat j) (fmul (R ! nat i ! nat k) (R ! nat i ! nat j)))
                  (fsub (Fin 1) (fsq (R ! nat i ! nat k)))"
proof -
  note eqs = calc_locals_Inr(1,2,4) [OF locals]
  from perm have row: "M_tab ! pp = [i, j, k]" by (simp only: eqs)
  show ?thesis
    using denom unfolding eqs perm_entries [OF pp row]
    by (simp add: deconf_def)
qed

theorem C3_derived_edges_witness:
  "\<exists>R M S C vars.
     snd (calc_locals (Fin (3/5)) (Fin (- (1/2))) (Fin (- (1/20))) 0) = Inr (R, M, S, C, vars)
     \<and> M ! 4 = [2, 0, 1]
     \<and> fsub (Fin 1) (fsq (R ! 2 ! 1)) = Fin (3/4)
     \<and> C ! 4 ! 2 ! 0 = Fin (23/30) \<and> C ! 4 ! 1 ! 0 = Fin (1/3)"
proof -
  have r: "\<not> out_of_range (Fin (3/5))" "\<not> out_of_range (Fin (- (1/2)))"
      "\<not> out_of_range (Fin (- (1/20)))"
    by (simp_all add: out_of_range_def)
  note loc = calc_locals_val [OF r, of 0]
  have "truthy (fsub (Fin 1)
          (fsq ([[Fin 0, Fin (- (1/20)), Fin (3/5)], [Fin (- (1/20)), Fin 0, Fin (- (1/2))],
                 [Fin (3/5), Fin (- (1/2)), Fin 0]] ! nat 2 ! nat 1)))"
    by (simp add: fsq_def)
  from C3_derived_edges [OF loc _ _ this, of 4 0] show ?thesis
    unfolding loc by (simp add: fsq_def)
qed

text \<open>
  C4. For every input that passes the range check and each of the six permutations
  \<open>(i, j, k)\<close>, the bridge edge \<open>C[pp,i,k]\<close> is the entry \<open>R[i,k]\<close> of the assembled matrix,
  which is one of the three input values, unchanged.
\<close>

theorem C4_bridge_edge:
  assumes locals: "snd (calc_locals r13 r23 r12 verb) = Inr (R, M, S, C, vars)"
    and pp: "pp < 6" and perm: "M ! pp = [i, j, k]"
  shows "C ! pp ! nat i ! nat k = R ! nat i ! nat k
       \<and> R = [[Fin 0, r12, r13], [r12, Fin 0, r23], [r13, r23, Fin 0]]
       \<and> R ! nat i ! nat k \<in> {r12, r13, r23}"
proof -
  note eqs = calc_locals_Inr(1,2,4) [OF locals]
  from perm have row: "M_tab ! pp = [i, j, k]" by (simp only: eqs)
  have "[[Fin 0, r12, r13], [r12, Fin 0, r23], [r13, r23, Fin 0]] ! nat i ! nat k \<in> {r12, r13, r23}"
    using lt6_cases [OF pp] row by auto
  then show ?thesis
    unfolding eqs perm_entries [OF pp row] by simp
qed

theorem C4_bridge_edge_witness:
  "\<exists>R M S C vars.
     snd (calc_locals (Fin (3/5)) (Fin (- (1/2))) (Fin (- (1/20))) 0) = Inr (R, M, S, C, vars)
     \<and> M ! 3 = [2, 1, 0] \<and> C ! 3 ! 2 ! 0 = Fin (3/5) \<and> R ! 2 ! 0 = Fin (3/5)"
proof -
  have r: "\<not> out_of_range (Fin (3/5))" "\<not> out_of_range (Fin (- (1/2)))"
      "\<not> out_of_range (Fin (- (1/20)))"
    by (simp_all add: out_of_range_def)
  note loc = calc_locals_val [OF r, of 0]
  from C4_bridge_edge [OF loc, of 3 2 1 0] show ?thesis
    unfolding loc by simp
qed

text \<open>
  C5. For a permutation \<open>(i, j, k)\<close> the denominator \<open>1 - R[i,k]**2\<close> is zero (false in
  \<^verbatim>\<open>if denom\<close>) exactly when \<open>R[i,k]\<close> is \<open>1.0\<close> or \<open>-1.0\<close>; then both derived edges
  \<open>C[pp,i,j]\<close> and \<open>C[pp,k,j]\<close> are exactly \<open>0.0\<close>. They are not the result of a division by
  this denominator, which would be an infinity or NaN whatever the numerator \<open>a\<close>.
\<close>

theorem C5_degenerate_denominator:
  assumes locals: "snd (calc_locals r13 r23 r12 verb) = Inr (R, M, S, C, vars)"
    and pp: "pp < 6" and perm: "M ! pp = [i, j, k]"
  shows "(\<not> truthy (fsub (Fin 1) (fsq (R ! nat i ! nat k))))
           = (R ! nat i ! nat k = Fin 1 \<or> R ! nat i ! nat k = Fin (- 1))
       \<and> (R ! nat i ! nat k = Fin 1 \<or> R ! nat i ! nat k = Fin (- 1) \<longrightarrow>
            fsub (Fin 1) (fsq (R ! nat i ! nat k)) = Fin 0
          \<and> C ! pp ! nat i ! nat j = Fin 0 \<and> C ! pp ! nat k ! nat j = Fin 0
          \<and> \<not> is_finite (fdiv a (fsub (Fin 1) (fsq (R ! nat i ! nat k)))))"
proof -
  note eqs = calc_locals_Inr(1,2,4) [OF locals]
  from perm have row: "M_tab ! pp = [i, j, k]" by (simp only: eqs)
  have z: "b = Fin 1 \<or> b = Fin (- 1) \<Longrightarrow> fsub (Fin 1) (fsq b) = Fin 0" for b
    by (auto simp add: fsq_def)
  show ?thesis
    unfolding eqs perm_entries [OF pp row] denom_zero_iff
    using fdiv_zero_not_finite [of a]
    by (auto simp add: deconf_def z)
qed

theorem C5_degenerate_denominator_witness:
  "\<exists>R M S C vars.
     snd (calc_locals (Fin 1) (Fin (- (1/2))) (Fin (- (1/20))) 0) = Inr (R, M, S, C, vars)
     \<and> M ! 2 = [0, 1, 2] \<and> R ! 0 ! 2 = Fin 1 \<and> \<not> truthy (fsub (Fin 1) (fsq (R ! 0 ! 2)))
     \<and> C ! 2 ! 0 ! 1 = Fin 0 \<and> C ! 2 ! 2 ! 1 = Fin 0"
proof -
  have r: "\<not> out_of_range (Fin 1)" "\<not> out_of_range (Fin (- (1/2)))"
      "\<not> out_of_range (Fin (- (1/20)))"
    by (simp_all add: out_of_range_def)
  note loc = calc_locals_val [OF r, of 0]
  from C5_degenerate_denominator [OF loc, of 2 0 1 2 NaN] show ?thesis
    unfolding loc by simp
qed

text \<open>
  C6. The table \<open>M\<close> has six rows, pairwise distinct; each row holds the three indices
  0, 1, 2, each once; each ordered pair of distinct indices is the pair (first, last) of
  exactly one row, so each unordered pair \<open>{0,1}\<close>, \<open>{0,2}\<close>, \<open>{1,2}\<close> is the giver-bridge pair
  of exactly two rows, one for each direction.
\<close>

theorem C6_permutation_completeness:
  "\<exists>M. perm_table = ([], Inr M)
      \<and> M = [[1, 2, 0], [0, 2, 1], [0, 1, 2], [2, 1, 0], [2, 0, 1], [1, 0, 2]]
      \<and> length M = 6 \<and> distinct M
      \<and> list_all (\<lambda>row. length row = 3 \<and> distinct row \<and> set row = {0, 1, 2}) M
      \<and> length (filter (\<lambda>row. (row ! 0, row ! 2) = (0, 1)) M) = 1
      \<and> length (filter (\<lambda>row. (row ! 0, row ! 2) = (1, 0)) M) = 1
      \<and> length (filter (\<lambda>row. (row ! 0, row ! 2) = (0, 2)) M) = 1
      \<and> length (filter (\<lambda>row. (row ! 0, row ! 2) = (2, 0)) M) = 1
      \<and> length (filter (\<lambda>row. (row ! 0, row ! 2) = (1, 2)) M) = 1
      \<and> length (filter (\<lambda>row. (row ! 0, row ! 2) = (2, 1)) M) = 1
      \<and> length (filter (\<lambda>row. {row ! 0, row ! 2} = {0, 1}) M) = 2
      \<and> length (filter (\<lambda>row. {row ! 0, row ! 2} = {0, 2}) M) = 2
      \<and> length (filter (\<lambda>row. {row ! 0, row ! 2} = {1, 2}) M) = 2"
  unfolding perm_table_val by (simp add: doubleton_eq_iff insert_commute)

text \<open>
  C7. The assembled matrix \<open>R\<close> is 3 x 3, symmetric, zero on the diagonal, with
  \<open>R[0,1] = r12\<close>, \<open>R[1,2] = r23\<close>, \<open>R[0,2] = r13\<close>; when the three inputs lie in \<open>[-1, 1]\<close>
  every entry off the diagonal is a finite value of magnitude at most 1.
\<close>

theorem C7_matrix_assembly:
  "\<exists>R. assemble_R r13 r23 r12 = ([], Inr R)
      \<and> length R = 3 \<and> list_all (\<lambda>row. length row = 3) R
      \<and> (\<forall>a<3. \<forall>b<3. R ! a ! b = R ! b ! a)
      \<and> (\<forall>a<3. R ! a ! a = Fin 0)
      \<and> R ! 0 ! 1 = r12 \<and> R ! 1 ! 2 = r23 \<and> R ! 0 ! 2 = r13
      \<and> (r13 = Fin x13 \<and> \<bar>x13\<bar> \<le> 1 \<and> r23 = Fin x23 \<and> \<bar>x23\<bar> \<le> 1 \<and> r12 = Fin x12 \<and> \<bar>x12\<bar> \<le> 1 \<longrightarrow>
           (\<forall>a<3. \<forall>b<3. a \<noteq> b \<longrightarrow> (\<exists>x. R ! a ! b = Fin x \<and> \<bar>x\<bar> \<le> 1)))"
  unfolding assemble_R_val by (simp add: all_lt3)

theorem C7_matrix_assembly_witness:
  "\<exists>R. assemble_R (Fin (3/5)) (Fin (- (1/2))) (Fin (- 1)) = ([], Inr R)
      \<and> R ! 2 ! 1 = R ! 1 ! 2 \<and> R ! 1 ! 1 = Fin 0 \<and> R ! 0 ! 2 = Fin (3/5)
      \<and> (\<exists>x. R ! 1 ! 0 = Fin x \<and> \<bar>x\<bar> \<le> 1)"
  using C7_matrix_assembly [of "Fin (3/5)" "Fin (- (1/2))" "Fin (- 1)" "3/5" "- (1/2)" "- 1"]
  unfolding assemble_R_val by (simp add: all_lt3)

text \<open>
  C8 as stated says that the third entry of row \<open>b\<close> of \<open>M1\<close> (the bridge \<open>k\<close> of the forward
  permutation) is the base index \<open>b\<close>. For \<open>b = 0\<close> the row is \<open>[0, 1, 2]\<close> and its third entry
  is 2.
\<close>

theorem C8_counterexample:
  "forward_bridge 0 = ([], Inr 2) \<and> forward_bridge 0 \<noteq> ([], Inr 0)"
  by (simp add: forward_bridge_def forward_row_def make_tables_val io_defs)

text \<open>
  C8, amended. For each base index \<open>b\<close> in \<open>{0, 1, 2}\<close> row \<open>b\<close> of \<open>M1\<close> is
  \<open>M1[b,c] = (c + 2*b) mod 3\<close> for \<open>c = 0, 1, 2\<close>; it is a row of the table \<open>M\<close>, read as the
  triple \<open>(i, j, k)\<close>, and its third entry, the bridge \<open>k\<close>, is \<open>2 - b\<close> (which is \<open>b\<close> only for
  \<open>b = 1\<close>).
\<close>

theorem C8_forward_row:
  assumes "b \<in> {0, 1, 2}"
  shows "forward_row b = ([], Inr [(0 + 2 * b) mod 3, (1 + 2 * b) mod 3, (2 + 2 * b) mod 3])
       \<and> forward_bridge b = ([], Inr (2 - b))
       \<and> (\<exists>M. perm_table = ([], Inr M)
              \<and> M ! nat (((0 + 2 * b) mod 3 + (2 + 2 * b) mod 3 - 1) * 2)
                  = [(0 + 2 * b) mod 3, (1 + 2 * b) mod 3, (2 + 2 * b) mod 3])"
  using assms unfolding perm_table_val
  by (auto simp add: forward_bridge_def forward_row_def make_tables_val io_defs)

theorem C8_forward_row_witness:
  "forward_row 2 = ([], Inr [1, 2, 0]) \<and> forward_bridge 2 = ([], Inr 0)
   \<and> (\<exists>M. perm_table = ([], Inr M) \<and> M ! 0 = [1, 2, 0])"
  using C8_forward_row [of 2] by simp

text \<open>
  C9. For every input that passes the range check the loop ends with
  \<open>(pp, ii, jj, kk) = (5, 1, 0, 2)\<close>, row 5 of \<open>M\<close> being \<open>[1, 0, 2]\<close>; the returned labels
  are \<^verbatim>\<open>roi_2 -> roi_3\<close>, \<^verbatim>\<open>roi_2 -> roi_1\<close>, \<^verbatim>\<open>roi_3 -> roi_1\<close> whatever the input, and the
  first returned value is the input \<open>r23\<close>.
\<close>

theorem C9_fixed_last_permutation:
  assumes "\<not> out_of_range r13" and "\<not> out_of_range r23" and "\<not> out_of_range r12"
  shows "\<exists>R M S C v2 v3.
           snd (calc_locals r13 r23 r12 verb) = Inr (R, M, S, C, Some (5, 1, 0, 2))
         \<and> M ! 5 = [1, 0, 2]
         \<and> snd (calc_acyclic_causal_rel_3x3 r13 r23 r12 verb)
             = Inr [Str ''roi_2 -> roi_3'', Str ''roi_2 -> roi_1'', Str ''roi_3 -> roi_1'',
                    Flt r23, Flt v2, Flt v3]"
  unfolding calc_locals_val [OF assms] calc_val [OF assms] by simp

theorem C9_fixed_last_permutation_witness:
  "\<exists>v2 v3. snd (calc_acyclic_causal_rel_3x3 (Fin (3/5)) (Fin (- (1/2))) (Fin (- (1/20))) 0)
             = Inr [Str ''roi_2 -> roi_3'', Str ''roi_2 -> roi_1'', Str ''roi_3 -> roi_1'',
                    Flt (Fin (- (1/2))), Flt v2, Flt v3]"
proof -
  have r: "\<not> out_of_range (Fin (3/5))" "\<not> out_of_range (Fin (- (1/2)))"
      "\<not> out_of_range (Fin (- (1/20)))"
    by (simp_all add: out_of_range_def)
  from C9_fixed_last_permutation [OF r, of 0] show ?thesis by blast
qed

text \<open>
  C10. For \<open>r13 = 0.8\<close>, \<open>r23 = 0.75\<close>, \<open>r12 = 0.6\<close> the denominator \<open>1 - R[i,k]**2\<close> is
  greater than zero in each of the six permutations, so both derived edges come from the
  division and are finite; the three returned values are finite, and the returned list
  is the same for every call with this input, whatever \<open>verb\<close>.
\<close>

theorem C10_example_9C:
  "\<exists>R M S C vars.
      snd (calc_locals (Fin 0.8) (Fin 0.75) (Fin 0.6) verb) = Inr (R, M, S, C, vars)
    \<and> (\<forall>pp<6. \<exists>i j k.
          M ! pp = [i, j, k]
        \<and> fgt (fsub (Fin 1) (fsq (R ! nat i ! nat k))) (Fin 0)
        \<and> truthy (fsub (Fin 1) (fsq (R ! nat i ! nat k)))
        \<and> C ! pp ! nat i ! nat j
            = fdiv (fsub (R ! nat i ! nat j) (fmul (R ! nat i ! nat k) (R ! nat k ! nat j)))
                   (fsub (Fin 1) (fsq (R ! nat i ! nat k)))
        \<and> C ! pp ! nat k ! nat j
            = fdiv (fsub (R ! nat k ! nat j) (fmul (R ! nat i ! nat k) (R ! nat i ! nat j)))
                   (fsub (Fin 1) (fsq (R ! nat i ! nat k)))
        \<and> is_finite (C ! pp ! nat i ! nat j) \<and> is_finite (C ! pp ! nat k ! nat j))
    \<and> (\<exists>l1 l2 l3 v1 v2 v3.
          snd (calc_acyclic_causal_rel_3x3 (Fin 0.8) (Fin 0.75) (Fin 0.6) verb)
            = Inr [Str l1, Str l2, Str l3, Flt v1, Flt v2, Flt v3]
        \<and> is_finite v1 \<and> is_finite v2 \<and> is_finite v3)
    \<and> snd (calc_acyclic_causal_rel_3x3 (Fin 0.8) (Fin 0.75) (Fin 0.6) verb)
        = snd (calc_acyclic_causal_rel_3x3 (Fin 0.8) (Fin 0.75) (Fin 0.6) verb')"
proof -
  have r: "\<not> out_of_range (Fin 0.8)" "\<not> out_of_range (Fin 0.75)" "\<not> out_of_range (Fin 0.6)"
    by (simp_all add: out_of_range_def)
  show ?thesis
    unfolding calc_locals_val [OF r] calc_val [OF r]
    by (simp add: all_lt6 C_closed_def deconf_def fsq_def)
qed

theorem C10_example_9C_witness:
  "\<exists>R M S C vars.
      snd (calc_locals (Fin 0.8) (Fin 0.75) (Fin 0.6) 0) = Inr (R, M, S, C, vars)
    \<and> (\<exists>i j k. M ! 5 = [i, j, k] \<and> fgt (fsub (Fin 1) (fsq (R ! nat i ! nat k))) (Fin 0)
         \<and> is_finite (C ! 5 ! nat i ! nat j) \<and> is_finite (C ! 5 ! nat k ! nat j))"
proof -
  from C10_example_9C [of 0 0] obtain R M S C vars where
    loc: "snd (calc_locals (Fin 0.8) (Fin 0.75) (Fin 0.6) 0) = Inr (R, M, S, C, vars)"
    and each: "\<forall>pp<6. \<exists>i j k.
          M ! pp = [i, j, k]
        \<and> fgt (fsub (Fin 1) (fsq (R ! nat i ! nat k))) (Fin 0)
        \<and> truthy (fsub (Fin 1) (fsq (R ! nat i ! nat k)))
        \<and> C ! pp ! nat i ! nat j
            = fdiv (fsub (R ! nat i ! nat j) (fmul (R ! nat i ! nat k) (R ! nat k ! nat j)))
                   (fsub (Fin 1) (fsq (R ! nat i ! nat k)))
        \<and> C ! pp ! nat k ! nat j
            = fdiv (fsub (R ! nat k ! nat j) (fmul (R ! nat i ! nat k) (R ! nat i ! nat j)))
                   (fsub (Fin 1) (fsq (R ! nat i ! nat k)))
        \<and> is_finite (C ! pp ! nat i ! nat j) \<and> is_finite (C ! pp ! nat k ! nat j)"
    by blast
  have "(5::nat) < 6" by simp
  with each have "\<exists>i j k. M ! 5 = [i, j, k]
        \<and> fgt (fsub (Fin 1) (fsq (R ! nat i ! nat k))) (Fin 0)
        \<and> is_finite (C ! 5 ! nat i ! nat j) \<and> is_finite (C ! 5 ! nat k ! nat j)"
    by blast
  with loc show ?thesis by blast
qed

end
